theory Spec2Isabelle
  imports Main "HOL-Library.AList"
begin

section \<open>Exceptions\<close>

text \<open>
  Every exception the modelled functions raise or let through is a value of \<open>error\<close>.
  \<open>HTTPException\<close> carries FastAPI's \<open>status_code\<close> and \<open>detail\<close>. A function that can
  raise returns \<open>error + 'a\<close>, with \<open>Inl\<close> for the exception.
\<close>

datatype os_error = FileNotFoundError | PermissionError

datatype error =
    HTTPException nat string
  | IntegrityError
  | MultipleResultsFound
  | TypeError string
  | JSONDecodeError string
  | InvalidRequestError
  | AttributeError string
  | OverflowError
  | ValidationError
  | ExpiredSignatureError
  | JWTClaimsError
  | JWTError
  | JWSError
  | JWKError

section \<open>Audio files: rows, session and disk\<close>

text \<open>
  \<open>app/models/audio.py\<close>: the mapped columns of \<open>AudioFile\<close>. The fields carry the prefix
  \<open>af_\<close> because \<open>id\<close> is a constant of HOL and \<open>User\<close> has an \<open>id\<close> too. A UUID is
  modelled by its textual form; ids reach the service already parsed. \<open>filename\<close> has no
  default, so it is \<open>None\<close> on an object that was built without it; the column is
  \<open>nullable=False\<close>, which the flush enforces.
\<close>

type_synonym uuid = string

record audio_file =
  af_id :: uuid
  af_user_id :: uuid
  af_filename :: "string option"
  af_original_filename :: string
  af_file_path :: string

text \<open>
  The disk: the regular files by path, and the paths whose removal the operating system
  refuses (a read-only directory, a missing permission). \<open>os_unlink\<close> is \<open>os.unlink\<close>:
  it raises an \<open>OSError\<close> and leaves the disk as it was, or removes the file.
\<close>

record fs =
  files :: "string \<rightharpoonup> string"
  undeletable :: "string set"

definition os_unlink :: "string \<Rightarrow> fs \<Rightarrow> os_error + fs" where
  "os_unlink p d =
     (if files d p = None then Inl FileNotFoundError
      else if p \<in> undeletable d then Inl PermissionError
      else Inr (d\<lparr>files := (files d)(p := None)\<rparr>))"

text \<open>
  What a request works on: the committed rows of \<open>audio_files\<close>, the unit of work of the
  \<open>AsyncSession\<close> (the inserts and deletes staged since the last commit), the disk, and the
  trace of effects in the order the code performs them. The session is created with
  \<open>autoflush=False\<close>, so a \<open>select\<close> reads the committed rows.
\<close>

datatype event =
    EvSelect
  | EvUnlink string
  | EvPrint
  | EvWrite string
  | EvAdd
  | EvDelete uuid
  | EvCommit
  | EvRefresh
  | EvClose

datatype audio_op = OpInsert audio_file | OpDelete uuid

record store =
  rows :: "audio_file list"
  pending :: "audio_op list"
  disk :: fs
  events :: "event list"

definition emit :: "event \<Rightarrow> store \<Rightarrow> store" where
  "emit e s = s\<lparr>events := events s @ [e]\<rparr>"

text \<open>\<open>Result.scalar_one_or_none()\<close>: no row, the one row, or \<open>MultipleResultsFound\<close>.\<close>

fun scalar_one_or_none :: "'a list \<Rightarrow> error + 'a option" where
  "scalar_one_or_none [] = Inr None"
| "scalar_one_or_none [r] = Inr (Some r)"
| "scalar_one_or_none (r # r' # rs) = Inl MultipleResultsFound"

text \<open>
  \<open>session.add(obj)\<close> stages an insert, \<open>session.delete(obj)\<close> the removal of the row with
  the object's primary key. \<open>session.commit()\<close> flushes the staged operations in order: an
  insert violates a constraint when \<open>filename\<close> is null or the primary key is taken, and
  then the flush raises \<open>IntegrityError\<close> and nothing is committed.
\<close>

definition session_add :: "audio_file \<Rightarrow> store \<Rightarrow> store" where
  "session_add f s = emit EvAdd (s\<lparr>pending := pending s @ [OpInsert f]\<rparr>)"

definition session_delete :: "audio_file \<Rightarrow> store \<Rightarrow> store" where
  "session_delete f s = emit (EvDelete (af_id f)) (s\<lparr>pending := pending s @ [OpDelete (af_id f)]\<rparr>)"

fun flush :: "audio_op list \<Rightarrow> audio_file list \<Rightarrow> error + audio_file list" where
  "flush [] t = Inr t"
| "flush (OpInsert r # ops) t =
     (if af_filename r = None \<or> af_id r \<in> set (map af_id t) then Inl IntegrityError
      else flush ops (t @ [r]))"
| "flush (OpDelete i # ops) t = flush ops (filter (\<lambda>r. af_id r \<noteq> i) t)"

definition commit :: "store \<Rightarrow> (error + unit) \<times> store" where
  "commit s =
     (let s1 = emit EvCommit s in
      case flush (pending s1) (rows s1) of
        Inl e \<Rightarrow> (Inl e, s1)
      | Inr t \<Rightarrow> (Inr (), s1\<lparr>rows := t, pending := []\<rparr>))"

subsection \<open>\<open>AudioService.get_audio_file\<close>\<close>

text \<open>
  \<open>app/services/audio.py\<close>, \<open>get_audio_file\<close>: the query filters on the id and on the owner
  together. \<open>AudioFileInDB.from_orm\<close> is pydantic's conversion of the row; it is the
  parameter \<open>from_orm\<close>, which may raise.
\<close>

definition get_audio_file ::
  "(audio_file \<Rightarrow> error + 'm) \<Rightarrow> uuid \<Rightarrow> uuid \<Rightarrow> store \<Rightarrow> (error + 'm option) \<times> store" where
  "get_audio_file from_orm file_id user_id s =
     (let s1 = emit EvSelect s;
          result = filter (\<lambda>f. af_user_id f = user_id) (filter (\<lambda>f. af_id f = file_id) (rows s1))
      in case scalar_one_or_none result of
           Inl e \<Rightarrow> (Inl e, s1)
         | Inr None \<Rightarrow> (Inr None, s1)
         | Inr (Some file) \<Rightarrow>
             (case from_orm file of
                Inl e \<Rightarrow> (Inl e, s1)
              | Inr m \<Rightarrow> (Inr (Some m), s1)))"

subsection \<open>\<open>AudioService.delete_audio_file\<close>\<close>

text \<open>
  \<open>delete_audio_file\<close>: the same query; when a row is found the file is unlinked (an
  \<open>OSError\<close> is printed and swallowed), then the row is deleted and the session committed.
\<close>

definition try_unlink :: "string \<Rightarrow> store \<Rightarrow> store" where
  "try_unlink p s =
     (let s1 = emit (EvUnlink p) s in
      case os_unlink p (disk s1) of
        Inl e \<Rightarrow> emit EvPrint s1
      | Inr d \<Rightarrow> s1\<lparr>disk := d\<rparr>)"

definition delete_audio_file :: "uuid \<Rightarrow> uuid \<Rightarrow> store \<Rightarrow> (error + bool) \<times> store" where
  "delete_audio_file file_id user_id s =
     (let s1 = emit EvSelect s;
          result = filter (\<lambda>f. af_user_id f = user_id) (filter (\<lambda>f. af_id f = file_id) (rows s1))
      in case scalar_one_or_none result of
           Inl e \<Rightarrow> (Inl e, s1)
         | Inr None \<Rightarrow> (Inr False, s1)
         | Inr (Some file) \<Rightarrow>
             (let s2 = try_unlink (af_file_path file) s1;
                  s3 = session_delete file s2
              in case commit s3 of
                   (Inl e, s4) \<Rightarrow> (Inl e, s4)
                 | (Inr u, s4) \<Rightarrow> (Inr True, s4)))"


section \<open>Settings\<close>

text \<open>
  \<open>app/core/config.py\<close>. The settings are pydantic objects, read by attribute. An object is
  its class name and its fields; \<open>getattr\<close> is the attribute read \<open>obj.name\<close>, which raises
  \<open>AttributeError\<close> for a name that is not a field. (Of the names the code reads none is a
  method or a property.) \<open>getattrs\<close> is a dotted path, read from the left.
\<close>

datatype attr =
    AttrStr string
  | AttrInt int
  | AttrBool bool
  | AttrList "string list"
  | AttrObject string "(string \<times> attr) list"

definition quoted :: "string \<Rightarrow> string" where
  "quoted k = [CHR 0x27] @ k @ [CHR 0x27]"

fun class_name :: "attr \<Rightarrow> string" where
  "class_name (AttrStr x) = ''str''"
| "class_name (AttrInt n) = ''int''"
| "class_name (AttrBool b) = ''bool''"
| "class_name (AttrList l) = ''list''"
| "class_name (AttrObject cls fs) = cls"

fun fields_of :: "attr \<Rightarrow> (string \<times> attr) list" where
  "fields_of (AttrObject cls fs) = fs"
| "fields_of v = []"

definition getattr :: "attr \<Rightarrow> string \<Rightarrow> error + attr" where
  "getattr obj name =
     (case map_of (fields_of obj) name of
        None \<Rightarrow>
          Inl (AttributeError (quoted (class_name obj) @ '' object has no attribute '' @ quoted name))
      | Some v \<Rightarrow> Inr v)"

fun getattrs :: "attr \<Rightarrow> string list \<Rightarrow> error + attr" where
  "getattrs obj [] = Inr obj"
| "getattrs obj (name # names) =
     (case getattr obj name of Inl e \<Rightarrow> Inl e | Inr v \<Rightarrow> getattrs v names)"

text \<open>
  The classes. \<open>AuthSettings\<close> has the fields \<open>secret_key\<close>, \<open>algorithm\<close>,
  \<open>access_token_expire_minutes\<close> and \<open>refresh_token_expire_days\<close>; their upper-case
  aliases name environment variables, not attributes. \<open>AudioSettings\<close> has \<open>max_file_size\<close>
  and \<open>allowed_types\<close>. \<open>Settings\<close> has exactly the four fields \<open>app\<close>, \<open>database\<close>,
  \<open>auth\<close> and \<open>yandex\<close>, and \<open>extra = "ignore"\<close> keeps anything else out of it:
  \<open>AudioSettings\<close> is declared and is no field of \<open>Settings\<close>. The module's \<open>settings\<close> is
  \<open>Settings()\<close>, so a value of the record below is all that the rest of the code can see.
\<close>

definition SecretStr :: "string \<Rightarrow> attr" where
  "SecretStr x = AttrObject ''SecretStr'' [(''_secret_value'', AttrStr x)]"

definition AuthSettings :: "string \<Rightarrow> string \<Rightarrow> int \<Rightarrow> int \<Rightarrow> attr" where
  "AuthSettings secret_key algorithm access_token_expire_minutes refresh_token_expire_days =
     AttrObject ''AuthSettings''
       [(''secret_key'', SecretStr secret_key), (''algorithm'', AttrStr algorithm),
        (''access_token_expire_minutes'', AttrInt access_token_expire_minutes),
        (''refresh_token_expire_days'', AttrInt refresh_token_expire_days)]"

definition AudioSettings :: "int \<Rightarrow> string list \<Rightarrow> attr" where
  "AudioSettings max_file_size allowed_types =
     AttrObject ''AudioSettings''
       [(''max_file_size'', AttrInt max_file_size), (''allowed_types'', AttrList allowed_types)]"

record Settings =
  app :: attr
  database :: attr
  auth :: attr
  yandex :: attr

definition Settings_object :: "Settings \<Rightarrow> attr" where
  "Settings_object settings =
     AttrObject ''Settings''
       [(''app'', app settings), (''database'', database settings), (''auth'', auth settings),
        (''yandex'', yandex settings)]"

text \<open>
  Reading an attribute as the type its class declares; a value of another type makes the
  operation that uses it raise \<open>TypeError\<close>.
\<close>

fun attr_strs :: "attr \<Rightarrow> error + string list" where
  "attr_strs (AttrList l) = Inr l"
| "attr_strs v = Inl (TypeError (''argument of type '' @ quoted (class_name v) @ '' is not iterable''))"

fun attr_int :: "attr \<Rightarrow> error + int" where
  "attr_int (AttrInt n) = Inr n"
| "attr_int (AttrBool b) = Inr (if b then 1 else 0)"
| "attr_int v = Inl (TypeError (quoted ''>'' @ '' not supported between instances of ''
                               @ quoted ''int'' @ '' and '' @ quoted (class_name v)))"

fun attr_str :: "attr \<Rightarrow> error + string" where
  "attr_str (AttrStr x) = Inr x"
| "attr_str v = Inl (TypeError (''expected str, bytes or os.PathLike object, not '' @ class_name v))"

section \<open>Uploading a file\<close>

text \<open>
  FastAPI's \<open>UploadFile\<close>: the declared name and content type, and the underlying file
  object, which is its bytes and the read position.
\<close>

record upload_file =
  uf_filename :: string
  uf_content_type :: string
  uf_bytes :: string
  uf_pos :: nat

definition seek_end :: "upload_file \<Rightarrow> upload_file" where
  "seek_end f = f\<lparr>uf_pos := length (uf_bytes f)\<rparr>"

definition seek_start :: "upload_file \<Rightarrow> upload_file" where
  "seek_start f = f\<lparr>uf_pos := 0\<rparr>"

definition tell :: "upload_file \<Rightarrow> nat" where
  "tell f = uf_pos f"

definition read_all :: "upload_file \<Rightarrow> string \<times> upload_file" where
  "read_all f = (drop (uf_pos f) (uf_bytes f), seek_end f)"

text \<open>Python's \<open>str(int)\<close> and \<open>sep.join(list)\<close>, for the detail messages.\<close>

fun str_nat :: "nat \<Rightarrow> string" where
  "str_nat n = (if n < 10 then [''0123456789'' ! n]
                else str_nat (n div 10) @ [''0123456789'' ! (n mod 10)])"

declare str_nat.simps [simp del]

definition str_int :: "int \<Rightarrow> string" where
  "str_int i = (if i < 0 then CHR ''-'' # str_nat (nat (- i)) else str_nat (nat i))"

fun str_join :: "string \<Rightarrow> string list \<Rightarrow> string" where
  "str_join sep [] = []"
| "str_join sep [x] = x"
| "str_join sep (x # y # ys) = x @ sep @ str_join sep (y # ys)"

text \<open>
  \<open>os.path.splitext\<close>: the extension starts at the last dot of the last path component,
  leading dots of the component not counted; the root is the rest.
\<close>

definition splitext :: "string \<Rightarrow> string \<times> string" where
  "splitext p =
     (let name = rev (takeWhile (\<lambda>c. c \<noteq> CHR ''/'') (rev p));
          stem = dropWhile (\<lambda>c. c = CHR ''.'') name
      in if CHR ''.'' \<in> set stem
         then (let ext = CHR ''.'' # rev (takeWhile (\<lambda>c. c \<noteq> CHR ''.'') (rev stem))
               in (take (length p - length ext) p, ext))
         else (p, []))"

text \<open>
  A Python call with keyword arguments: a keyword that the callee does not declare raises
  \<open>TypeError\<close> before the body runs. SQLAlchemy's declarative constructor does the same
  for a keyword that is not a mapped attribute. \<open>unexpected_keyword\<close> is the first such
  keyword.
\<close>

definition unexpected_keyword :: "string list \<Rightarrow> string list \<Rightarrow> string option" where
  "unexpected_keyword params kws =
     (case filter (\<lambda>k. k \<notin> set params) kws of [] \<Rightarrow> None | k # ks \<Rightarrow> Some k)"

definition AudioFile_columns :: "string list" where
  "AudioFile_columns = [''id'', ''user_id'', ''filename'', ''original_filename'', ''file_path'']"

definition save_audio_file_params :: "string list" where
  "save_audio_file_params = [''user_id'', ''file'', ''session'']"

subsection \<open>\<open>AudioService.save_audio_file\<close>\<close>

text \<open>
  \<open>app/services/audio.py\<close>, \<open>save_audio_file(user_id, file, session)\<close>. The two calls of
  \<open>uuid4\<close> (the stored name, and the default of the row's \<open>id\<close>) are the parameters
  \<open>name_uuid\<close> and \<open>row_uuid\<close>. The extension and the name are computed, then
  \<open>settings.AUDIO_UPLOAD_DIR\<close> is read for the path; the bytes are written; then
  \<open>AudioFile\<close> is built with the keywords \<open>user_id\<close>, \<open>original_filename\<close>, \<open>file_path\<close>,
  \<open>file_size\<close> and \<open>content_type\<close>, added, committed and refreshed. The \<open>finally\<close> clause
  closes the upload on every path. Directories are not modelled, so \<open>mkdir\<close> leaves no
  trace.
\<close>

definition write_file :: "string \<Rightarrow> string \<Rightarrow> store \<Rightarrow> store" where
  "write_file p content s =
     emit (EvWrite p) (s\<lparr>disk := (disk s)\<lparr>files := (files (disk s))(p \<mapsto> content)\<rparr>\<rparr>)"

definition save_audio_file ::
  "Settings \<Rightarrow> (audio_file \<Rightarrow> error + 'm) \<Rightarrow> uuid \<Rightarrow> uuid \<Rightarrow>
     uuid \<Rightarrow> upload_file \<Rightarrow> store \<Rightarrow> (error + 'm) \<times> store" where
  "save_audio_file settings from_orm name_uuid row_uuid user_id file s =
     (let file_ext = snd (splitext (uf_filename file));
          filename = name_uuid @ file_ext;
          body =
            (case getattr (Settings_object settings) ''AUDIO_UPLOAD_DIR'' of
               Inl e \<Rightarrow> (Inl e, s)
             | Inr dir \<Rightarrow>
                 (case attr_str dir of
                    Inl e \<Rightarrow> (Inl e, s)
                  | Inr upload_dir \<Rightarrow>
                      (let file_path = upload_dir @ ''/'' @ filename;
                           content = fst (read_all file);
                           s1 = write_file file_path content s;
                           file_size = length content
                       in case unexpected_keyword AudioFile_columns
                                 [''user_id'', ''original_filename'', ''file_path'', ''file_size'',
                                  ''content_type''] of
                            Some k \<Rightarrow>
                              (Inl (TypeError (quoted k
                                      @ '' is an invalid keyword argument for AudioFile'')), s1)
                          | None \<Rightarrow>
                              (let audio_file =
                                     \<lparr>af_id = row_uuid, af_user_id = user_id, af_filename = None,
                                      af_original_filename = uf_filename file,
                                      af_file_path = file_path\<rparr>;
                                   s2 = session_add audio_file s1
                               in case commit s2 of
                                    (Inl e, s3) \<Rightarrow> (Inl e, s3)
                                  | (Inr u, s3) \<Rightarrow> (from_orm audio_file, emit EvRefresh s3)))))
      in (fst body, emit EvClose (snd body)))"

subsection \<open>\<open>AudioService.get_user_audio_files\<close>\<close>

fun convert_all :: "('a \<Rightarrow> error + 'm) \<Rightarrow> 'a list \<Rightarrow> error + 'm list" where
  "convert_all conv [] = Inr []"
| "convert_all conv (x # xs) =
     (case conv x of
        Inl e \<Rightarrow> Inl e
      | Inr m \<Rightarrow> (case convert_all conv xs of Inl e \<Rightarrow> Inl e | Inr ms \<Rightarrow> Inr (m # ms)))"

definition get_user_audio_files ::
  "(audio_file \<Rightarrow> error + 'm) \<Rightarrow> uuid \<Rightarrow> store \<Rightarrow> (error + 'm list) \<times> store" where
  "get_user_audio_files from_orm user_id s =
     (let s1 = emit EvSelect s
      in (convert_all from_orm (filter (\<lambda>f. af_user_id f = user_id) (rows s1)), s1))"

subsection \<open>The route \<open>POST /audio/upload\<close>\<close>

text \<open>
  \<open>app/routes/audio.py\<close>, \<open>upload_audio_file\<close>. Its first statement reads
  \<open>settings.audio.allowed_types\<close> for the content type check; then the size is measured by
  seeking to the end of the upload and compared with \<open>settings.audio.max_file_size\<close>; then
  the service is called with the keywords \<open>user_id\<close>, \<open>file\<close>, \<open>session\<close> and
  \<open>storage_path\<close>, the last read from \<open>settings.audio.storage_path\<close>.
\<close>

definition upload_audio_file ::
  "Settings \<Rightarrow> (audio_file \<Rightarrow> error + 'm) \<Rightarrow> uuid \<Rightarrow> uuid \<Rightarrow>
     uuid \<Rightarrow> upload_file \<Rightarrow> store \<Rightarrow> (error + 'm) \<times> store" where
  "upload_audio_file settings from_orm name_uuid row_uuid current_user_id file s =
     (case getattrs (Settings_object settings) [''audio'', ''allowed_types''] of
        Inl e \<Rightarrow> (Inl e, s)
      | Inr types \<Rightarrow>
     (case attr_strs types of
        Inl e \<Rightarrow> (Inl e, s)
      | Inr allowed_types \<Rightarrow>
          if uf_content_type file \<notin> set allowed_types then
            (Inl (HTTPException 400
                   (''Unsupported file type. Allowed: '' @ str_join '', '' allowed_types)), s)
          else
            (let file1 = seek_end file;
                 file_size = tell file1;
                 file2 = seek_start file1
             in case getattrs (Settings_object settings) [''audio'', ''max_file_size''] of
                  Inl e \<Rightarrow> (Inl e, s)
                | Inr limit \<Rightarrow>
               (case attr_int limit of
                  Inl e \<Rightarrow> (Inl e, s)
                | Inr max_file_size \<Rightarrow>
                    if int file_size > max_file_size then
                      (Inl (HTTPException 413
                             (''File too large. Max size: '' @ str_int max_file_size @ '' bytes'')), s)
                    else
                      (case getattrs (Settings_object settings) [''audio'', ''storage_path''] of
                         Inl e \<Rightarrow> (Inl e, s)
                       | Inr storage_path \<Rightarrow>
                           (case unexpected_keyword save_audio_file_params
                                   [''user_id'', ''file'', ''session'', ''storage_path''] of
                              Some k \<Rightarrow>
                                (Inl (TypeError
                                   (''save_audio_file() got an unexpected keyword argument ''
                                      @ quoted k)), s)
                            | None \<Rightarrow>
                                save_audio_file settings from_orm name_uuid row_uuid
                                  current_user_id file2 s))))))"

section \<open>The OAuth provider over HTTP\<close>

text \<open>
  An outbound call is the request the code builds, with the \<open>timeout\<close> it passes
  (\<open>None\<close> when it passes none), and the network answers it: the call fails before any
  response arrives (\<open>httpx.RequestError\<close>, \<open>requests.exceptions.ConnectionError\<close> and the
  like, with the exception's text), or a response comes back with its status, its reason
  phrase, its text and its body read as JSON (\<open>Inl\<close> the decoder's message when the body
  is not JSON). The
  provider's documents are objects with string values. A function that calls the provider
  takes the network as a parameter and returns the requests it made, in order.
\<close>

type_synonym json_obj = "(string \<times> string) list"

record http_request =
  rq_method :: string
  rq_url :: string
  rq_params :: "(string \<times> string) list"
  rq_headers :: "(string \<times> string) list"
  rq_data :: "(string \<times> string) list"
  rq_timeout :: "nat option"

datatype http_result =
    RequestError string
  | Response nat string string "string + json_obj"

type_synonym network = "http_request \<Rightarrow> http_result"

text \<open>
  Python's \<open>{**a, **b}\<close> and \<open>d[k] = v\<close> on dictionaries that keep insertion order.
\<close>

definition dict_set :: "string \<Rightarrow> 'v \<Rightarrow> (string \<times> 'v) list \<Rightarrow> (string \<times> 'v) list" where
  "dict_set k v d = AList.update k v d"

definition dict_merge :: "(string \<times> 'v) list \<Rightarrow> (string \<times> 'v) list \<Rightarrow> (string \<times> 'v) list" where
  "dict_merge a b = foldl (\<lambda>d kv. dict_set (fst kv) (snd kv) d) a b"

subsection \<open>\<open>AuthService.get_yandex_user_info\<close>\<close>

text \<open>
  \<open>app/services/auth.py\<close>: two \<open>GET\<close>s, each with \<open>timeout=10.0\<close>; \<open>raise_for_status\<close>
  raises \<open>HTTPStatusError\<close> for a response outside 2xx, which becomes 401; a
  \<open>RequestError\<close> becomes 503; a body that is not JSON raises a decoding error that no
  clause catches.
\<close>

definition tokeninfo_request :: "string \<Rightarrow> http_request" where
  "tokeninfo_request access_token =
     \<lparr>rq_method = ''GET'', rq_url = ''https://oauth.yandex.ru/tokeninfo'',
      rq_params = [(''access_token'', access_token)], rq_headers = [], rq_data = [],
      rq_timeout = Some 10\<rparr>"

definition info_request :: "string \<Rightarrow> http_request" where
  "info_request access_token =
     \<lparr>rq_method = ''GET'', rq_url = ''https://login.yandex.ru/info'',
      rq_params = [(''format'', ''json''), (''with_openid_identity'', ''true'')],
      rq_headers = [(''Authorization'', ''OAuth '' @ access_token)], rq_data = [],
      rq_timeout = Some 10\<rparr>"

definition is_success :: "nat \<Rightarrow> bool" where
  "is_success status = (200 \<le> status \<and> status < 300)"

definition get_yandex_user_info ::
  "network \<Rightarrow> string \<Rightarrow> (error + json_obj) \<times> http_request list" where
  "get_yandex_user_info net access_token =
     (let rq1 = tokeninfo_request access_token in
      case net rq1 of
        RequestError msg \<Rightarrow>
          (Inl (HTTPException 503 ''Yandex OAuth service unavailable''), [rq1])
      | Response status1 reason1 text1 json1 \<Rightarrow>
          if \<not> is_success status1 then
            (Inl (HTTPException 401 (''Yandex API error: '' @ text1)), [rq1])
          else
            (case json1 of
               Inl msg \<Rightarrow> (Inl (JSONDecodeError msg), [rq1])
             | Inr token_data \<Rightarrow>
                 (let rq2 = info_request access_token in
                  case net rq2 of
                    RequestError msg \<Rightarrow>
                      (Inl (HTTPException 503 ''Yandex OAuth service unavailable''), [rq1, rq2])
                  | Response status2 reason2 text2 json2 \<Rightarrow>
                      if \<not> is_success status2 then
                        (Inl (HTTPException 401 (''Yandex API error: '' @ text2)), [rq1, rq2])
                      else
                        (case json2 of
                           Inl msg \<Rightarrow> (Inl (JSONDecodeError msg), [rq1, rq2])
                         | Inr user_data \<Rightarrow>
                             (Inr (dict_set ''access_token'' access_token
                                     (dict_merge token_data user_data)), [rq1, rq2])))))"

subsection \<open>The route \<open>GET /auth/yandex/callback\<close> of \<open>app/routes/yandex.py\<close>\<close>

text \<open>
  \<open>yandex_callback(code, client_id, client_secret)\<close> posts the authorization code with
  \<open>requests.post(token_url, data=data)\<close>, passing no \<open>timeout\<close>. Every
  \<open>RequestException\<close> becomes 400: a failed connection, the \<open>HTTPError\<close> that
  \<open>raise_for_status\<close> raises for a 4xx or 5xx response, and the decoding error of
  \<open>response.json()\<close>.
\<close>

definition token_request :: "string \<Rightarrow> string \<Rightarrow> string \<Rightarrow> http_request" where
  "token_request code client_id client_secret =
     \<lparr>rq_method = ''POST'', rq_url = ''https://oauth.yandex.ru/token'',
      rq_params = [], rq_headers = [],
      rq_data = [(''code'', code), (''client_id'', client_id), (''client_secret'', client_secret),
                 (''grant_type'', ''authorization_code'')],
      rq_timeout = None\<rparr>"

definition http_error_msg :: "nat \<Rightarrow> string \<Rightarrow> http_request \<Rightarrow> string" where
  "http_error_msg status reason rq =
     str_nat status @ (if status < 500 then '' Client Error: '' else '' Server Error: '')
       @ reason @ '' for url: '' @ rq_url rq"

definition yandex_callback ::
  "network \<Rightarrow> string \<Rightarrow> string \<Rightarrow> string \<Rightarrow> (error + json_obj) \<times> http_request list" where
  "yandex_callback net code client_id client_secret =
     (let rq = token_request code client_id client_secret in
      case net rq of
        RequestError msg \<Rightarrow> (Inl (HTTPException 400 (''Yandex OAuth error: '' @ msg)), [rq])
      | Response status reason text json \<Rightarrow>
          if 400 \<le> status \<and> status < 600 then
            (Inl (HTTPException 400 (''Yandex OAuth error: '' @ http_error_msg status reason rq)), [rq])
          else
            (case json of
               Inl msg \<Rightarrow> (Inl (HTTPException 400 (''Yandex OAuth error: '' @ msg)), [rq])
             | Inr content \<Rightarrow> (Inr content, [rq])))"

section \<open>Users: rows and session\<close>

text \<open>
  \<open>app/models/user.py\<close>: the columns of \<open>User\<close>, with the prefix \<open>u_\<close>. \<open>id\<close> is the primary
  key; \<open>email\<close> and \<open>yandex_id\<close> are declared \<open>unique=True\<close>; the nullable columns are
  options.
\<close>

record user =
  u_id :: uuid
  u_email :: string
  u_name :: "string option"
  u_yandex_id :: string
  u_is_active :: bool
  u_is_superuser :: bool
  u_access_token :: "string option"
  u_refresh_token :: "string option"
  u_token_expires :: "int option"

text \<open>
  The session of \<open>AuthService\<close>: the committed rows of \<open>users\<close>, the unit of work (an insert
  for an added object, an update for a loaded object whose attributes were assigned), and
  the calls made on the session. A flush applies the staged operations in order and raises
  \<open>IntegrityError\<close> at the first one that would leave two rows with the same \<open>id\<close>, \<open>email\<close>
  or \<open>yandex_id\<close>; then nothing is committed. \<open>rollback\<close> discards the unit of work.
  \<open>refresh\<close> reads the row of a primary key back.
\<close>

datatype user_op = UInsert user | UUpdate user

datatype session_call = Execute | Add | Commit | Rollback | Refresh

record user_session =
  users :: "user list"
  work :: "user_op list"
  calls :: "session_call list"

definition called :: "session_call \<Rightarrow> user_session \<Rightarrow> user_session" where
  "called c s = s\<lparr>calls := calls s @ [c]\<rparr>"

definition clashes :: "user \<Rightarrow> user list \<Rightarrow> bool" where
  "clashes r t =
     (\<exists>x\<in>set t. u_id x = u_id r \<or> u_email x = u_email r \<or> u_yandex_id x = u_yandex_id r)"

fun flush_users :: "user_op list \<Rightarrow> user list \<Rightarrow> error + user list" where
  "flush_users [] t = Inr t"
| "flush_users (UInsert r # ops) t =
     (if clashes r t then Inl IntegrityError else flush_users ops (t @ [r]))"
| "flush_users (UUpdate r # ops) t =
     (if clashes r (filter (\<lambda>x. u_id x \<noteq> u_id r) t) then Inl IntegrityError
      else flush_users ops (map (\<lambda>x. if u_id x = u_id r then r else x) t))"

definition session_add_user :: "user \<Rightarrow> user_session \<Rightarrow> user_session" where
  "session_add_user u s = called Add (s\<lparr>work := work s @ [UInsert u]\<rparr>)"

definition assigned :: "user \<Rightarrow> user_session \<Rightarrow> user_session" where
  "assigned u s = s\<lparr>work := work s @ [UUpdate u]\<rparr>"

definition commit_users :: "user_session \<Rightarrow> (error + unit) \<times> user_session" where
  "commit_users s =
     (let s1 = called Commit s in
      case flush_users (work s1) (users s1) of
        Inl e \<Rightarrow> (Inl e, s1)
      | Inr t \<Rightarrow> (Inr (), s1\<lparr>users := t, work := []\<rparr>))"

definition rollback :: "user_session \<Rightarrow> user_session" where
  "rollback s = called Rollback (s\<lparr>work := []\<rparr>)"

definition refresh :: "uuid \<Rightarrow> user_session \<Rightarrow> (error + user) \<times> user_session" where
  "refresh i s =
     (let s1 = called Refresh s in
      case find (\<lambda>x. u_id x = i) (users s1) of
        None \<Rightarrow> (Inl InvalidRequestError, s1)
      | Some u \<Rightarrow> (Inr u, s1))"

subsection \<open>\<open>AuthService._get_or_create_user\<close>\<close>

text \<open>
  The dictionary \<open>user_data\<close> that \<open>authenticate_user\<close> builds, as a record. The function
  is named without its leading underscore. The query matches on \<open>yandex_id\<close> or \<open>email\<close>
  and takes the first row (in table order); a found row gets the token and its expiry, and
  \<open>yandex_id\<close> and \<open>name\<close> where they differ; otherwise a row is added, whose \<open>id\<close> is the
  column default \<open>uuid4()\<close>, the parameter \<open>new_id\<close>. Then commit and refresh.
\<close>

record user_data =
  ud_yandex_id :: string
  ud_email :: string
  ud_name :: string
  ud_access_token :: string
  ud_token_expires :: int

definition first_row :: "'a list \<Rightarrow> 'a option" where
  "first_row rs = (case rs of [] \<Rightarrow> None | r # rest \<Rightarrow> Some r)"

definition get_or_create_user ::
  "uuid \<Rightarrow> user_data \<Rightarrow> user_session \<Rightarrow> (error + user) \<times> user_session" where
  "get_or_create_user new_id data s =
     (let s1 = called Execute s;
          result = filter (\<lambda>x. u_yandex_id x = ud_yandex_id data \<or> u_email x = ud_email data)
                     (users s1);
          staged =
            (case first_row result of
               Some user \<Rightarrow>
                 (let user1 = user\<lparr>u_access_token := Some (ud_access_token data)\<rparr>;
                      user2 = user1\<lparr>u_token_expires := Some (ud_token_expires data)\<rparr>;
                      user3 = (if u_yandex_id user2 \<noteq> ud_yandex_id data
                               then user2\<lparr>u_yandex_id := ud_yandex_id data\<rparr> else user2);
                      user4 = (if u_name user3 \<noteq> Some (ud_name data)
                               then user3\<lparr>u_name := Some (ud_name data)\<rparr> else user3)
                  in (user4, assigned user4 s1))
             | None \<Rightarrow>
                 (let user = \<lparr>u_id = new_id, u_email = ud_email data, u_name = Some (ud_name data),
                               u_yandex_id = ud_yandex_id data, u_is_active = True,
                               u_is_superuser = False,
                               u_access_token = Some (ud_access_token data),
                               u_refresh_token = Some [],
                               u_token_expires = Some (ud_token_expires data)\<rparr>
                  in (user, session_add_user user s1)))
      in case commit_users (snd staged) of
           (Inl e, s2) \<Rightarrow> (Inl e, s2)
         | (Inr u, s2) \<Rightarrow> refresh (u_id (fst staged)) s2)"

subsection \<open>\<open>AuthService.authenticate_user\<close>\<close>

text \<open>
  \<open>str(exc)\<close> of an exception that carries a text; for the other errors, whose text the
  model does not track, it is the class name.
\<close>

fun error_text :: "error \<Rightarrow> string" where
  "error_text (HTTPException c d) = d"
| "error_text (TypeError m) = m"
| "error_text (JSONDecodeError m) = m"
| "error_text IntegrityError = ''IntegrityError''"
| "error_text MultipleResultsFound = ''MultipleResultsFound''"
| "error_text InvalidRequestError = ''InvalidRequestError''"
| "error_text (AttributeError m) = m"
| "error_text OverflowError = ''OverflowError''"
| "error_text ValidationError = ''ValidationError''"
| "error_text ExpiredSignatureError = ''ExpiredSignatureError''"
| "error_text JWTClaimsError = ''JWTClaimsError''"
| "error_text JWTError = ''JWTError''"
| "error_text JWSError = ''JWSError''"
| "error_text JWKError = ''JWKError''"

text \<open>
  \<open>x or y\<close> on a value of \<open>dict.get\<close>: the value when it is a non-empty string, else \<open>y\<close>.
\<close>

definition or_else :: "string option \<Rightarrow> string \<Rightarrow> string" where
  "or_else v other = (case v of None \<Rightarrow> other | Some x \<Rightarrow> if x = [] then other else x)"

text \<open>
  The two handlers. The inner one turns \<open>IntegrityError\<close> into 409 after a rollback; the
  outer one lets an \<open>HTTPException\<close> through and turns anything else into 500 after a
  rollback.
\<close>

fun except_integrity :: "error \<Rightarrow> user_session \<Rightarrow> error \<times> user_session" where
  "except_integrity IntegrityError s =
     (HTTPException 409 ''User already exists with different credentials'', rollback s)"
| "except_integrity e s = (e, s)"

fun except_outer :: "error \<Rightarrow> user_session \<Rightarrow> error \<times> user_session" where
  "except_outer (HTTPException c d) s = (HTTPException c d, s)"
| "except_outer e s = (HTTPException 500 (''Authentication failed: '' @ error_text e), rollback s)"

text \<open>
  The body of the outer \<open>try\<close>. \<open>now\<close> is \<open>datetime.now()\<close> in whole seconds since the epoch;
  the expiry is 30 days later.
\<close>

definition authenticate_body ::
  "network \<Rightarrow> int \<Rightarrow> uuid \<Rightarrow> string \<Rightarrow> user_session \<Rightarrow> (error + user) \<times> user_session" where
  "authenticate_body net now new_id yandex_token s =
     (case fst (get_yandex_user_info net yandex_token) of
        Inl e \<Rightarrow> (Inl e, s)
      | Inr yandex_data \<Rightarrow>
          (case (map_of yandex_data ''user_id'', map_of yandex_data ''default_email'') of
             (Some user_id, Some default_email) \<Rightarrow>
               (let data = \<lparr>ud_yandex_id = user_id, ud_email = default_email,
                             ud_name = or_else (map_of yandex_data ''real_name'')
                                         (or_else (map_of yandex_data ''display_name'')
                                            (takeWhile (\<lambda>c. c \<noteq> CHR ''@'') default_email)),
                             ud_access_token = yandex_token,
                             ud_token_expires = now + 30 * 86400\<rparr>
                in case get_or_create_user new_id data s of
                     (Inr user, s1) \<Rightarrow> (Inr user, s1)
                   | (Inl e, s1) \<Rightarrow> (Inl (fst (except_integrity e s1)), snd (except_integrity e s1)))
           | _ \<Rightarrow> (Inl (HTTPException 400 ''Incomplete Yandex user data''), s)))"

definition authenticate_user ::
  "network \<Rightarrow> int \<Rightarrow> uuid \<Rightarrow> string \<Rightarrow> user_session \<Rightarrow> (error + user) \<times> user_session" where
  "authenticate_user net now new_id yandex_token s =
     (case authenticate_body net now new_id yandex_token s of
        (Inr user, s1) \<Rightarrow> (Inr user, s1)
      | (Inl e, s1) \<Rightarrow> (Inl (fst (except_outer e s1)), snd (except_outer e s1)))"

section \<open>Bearer tokens\<close>

text \<open>
  python-jose is not part of the repository: \<open>jwt.encode\<close> and \<open>jwt.decode\<close> are
  parameters of the two functions that call them. \<open>jwt_encode\<close> is a function of the claims,
  the key and the algorithm; \<open>jwt_decode\<close> a function of the token, the key, the allowed
  algorithms and the options (the clock it reads is part of the parameter). Either may
  raise. The values of the dictionary given to \<open>jwt.encode\<close> are strings, integers and
  \<open>datetime\<close>s (in whole seconds since the epoch); a decoded payload holds strings and
  integers.
\<close>

datatype pyval = PStr string | PInt int | PDatetime int

datatype jval = JStr string | JInt int

type_synonym claims = "(string \<times> jval) list"

type_synonym jwt_encode_fn = "(string \<times> pyval) list \<Rightarrow> attr \<Rightarrow> attr \<Rightarrow> error + string"

type_synonym jwt_decode_fn =
  "string \<Rightarrow> attr \<Rightarrow> attr list \<Rightarrow> (string \<times> string list) list \<Rightarrow> error + claims"

subsection \<open>\<open>AuthService.create_access_token\<close>\<close>

text \<open>
  \<open>timedelta(minutes=v)\<close> raises \<open>OverflowError\<close> beyond 999999999 days, and
  \<open>datetime + timedelta\<close> raises it outside the years 1 to 9999.
\<close>

definition timedelta_minutes :: "attr \<Rightarrow> error + int" where
  "timedelta_minutes v =
     (case attr_int v of
        Inl e \<Rightarrow>
          Inl (TypeError (''unsupported type for timedelta minutes component: '' @ class_name v))
      | Inr m \<Rightarrow>
          if (60 * m) div 86400 < - 999999999 \<or> 999999999 < (60 * m) div 86400
          then Inl OverflowError else Inr (60 * m))"

definition datetime_add :: "int \<Rightarrow> int \<Rightarrow> error + int" where
  "datetime_add t d =
     (if t + d < - 62135596800 \<or> 253402300799 < t + d then Inl OverflowError else Inr (t + d))"

text \<open>
  \<open>app/services/auth.py\<close>, \<open>create_access_token(data)\<close>. \<open>utcnow\<close> is \<open>datetime.utcnow()\<close>
  in whole seconds. The body of the \<open>try\<close> reads \<open>settings.ACCESS_TOKEN_EXPIRE_MINUTES\<close> for
  the expiry, then \<open>settings.SECRET_KEY\<close> and \<open>settings.ALGORITHM\<close> for the call of
  \<open>jwt.encode\<close>. The \<open>except\<close> clause catches \<open>JWTError\<close> (with its subclasses) and
  \<open>ValidationError\<close> and raises 500; any other exception passes.
\<close>

fun is_JWTError :: "error \<Rightarrow> bool" where
  "is_JWTError JWTError = True"
| "is_JWTError JWTClaimsError = True"
| "is_JWTError ExpiredSignatureError = True"
| "is_JWTError e = False"

definition create_access_token_try ::
  "jwt_encode_fn \<Rightarrow> Settings \<Rightarrow> int \<Rightarrow> (string \<times> pyval) list \<Rightarrow> error + string" where
  "create_access_token_try jwt_encode settings utcnow data =
     (let to_encode = data in
      case getattr (Settings_object settings) ''ACCESS_TOKEN_EXPIRE_MINUTES'' of
        Inl e \<Rightarrow> Inl e
      | Inr minutes \<Rightarrow>
     (case timedelta_minutes minutes of
        Inl e \<Rightarrow> Inl e
      | Inr delta \<Rightarrow>
     (case datetime_add utcnow delta of
        Inl e \<Rightarrow> Inl e
      | Inr expire \<Rightarrow>
          (let to_encode = dict_set ''exp'' (PDatetime expire) to_encode in
           case getattr (Settings_object settings) ''SECRET_KEY'' of
             Inl e \<Rightarrow> Inl e
           | Inr key \<Rightarrow>
               (case getattr (Settings_object settings) ''ALGORITHM'' of
                  Inl e \<Rightarrow> Inl e
                | Inr algorithm \<Rightarrow> jwt_encode to_encode key algorithm)))))"

definition create_access_token ::
  "jwt_encode_fn \<Rightarrow> Settings \<Rightarrow> int \<Rightarrow> (string \<times> pyval) list \<Rightarrow> error + string" where
  "create_access_token jwt_encode settings utcnow data =
     (case create_access_token_try jwt_encode settings utcnow data of
        Inr token \<Rightarrow> Inr token
      | Inl e \<Rightarrow>
          if is_JWTError e \<or> e = ValidationError
          then Inl (HTTPException 500 (''Token creation failed: '' @ error_text e))
          else Inl e)"

subsection \<open>\<open>AuthService.verify_token\<close>\<close>

text \<open>
  \<open>verify_token(token)\<close>. The arguments of \<open>jwt.decode\<close> are evaluated in order: the token,
  \<open>settings.SECRET_KEY\<close>, the list holding \<open>settings.auth.ALGORITHM\<close>, and the options
  \<open>{"require": ["exp", "sub"]}\<close>. The three \<open>except\<close> clauses follow, in their order; an
  exception that is none of the three passes.
\<close>

fun except_jwt :: "error \<Rightarrow> error" where
  "except_jwt ExpiredSignatureError = HTTPException 401 ''Token has expired''"
| "except_jwt JWTClaimsError = HTTPException 401 ''Invalid token claims''"
| "except_jwt JWTError = HTTPException 401 ''Invalid token''"
| "except_jwt e = e"

definition verify_token_try :: "jwt_decode_fn \<Rightarrow> Settings \<Rightarrow> string \<Rightarrow> error + claims" where
  "verify_token_try jwt_decode settings token =
     (case getattr (Settings_object settings) ''SECRET_KEY'' of
        Inl e \<Rightarrow> Inl e
      | Inr key \<Rightarrow>
          (case getattrs (Settings_object settings) [''auth'', ''ALGORITHM''] of
             Inl e \<Rightarrow> Inl e
           | Inr algorithm \<Rightarrow>
               jwt_decode token key [algorithm] [(''require'', [''exp'', ''sub''])]))"

definition verify_token :: "jwt_decode_fn \<Rightarrow> Settings \<Rightarrow> string \<Rightarrow> error + claims" where
  "verify_token jwt_decode settings token =
     (case verify_token_try jwt_decode settings token of
        Inr payload \<Rightarrow> Inr payload
      | Inl e \<Rightarrow> Inl (except_jwt e))"

section \<open>Example inputs\<close>

text \<open>
  One stored file of user \<open>alice\<close>, present on disk; the concrete input of the
  instances below.
\<close>

definition song :: audio_file where
  "song = \<lparr>af_id = ''f1'', af_user_id = ''alice'', af_filename = Some ''a.mp3'',
            af_original_filename = ''song.mp3'', af_file_path = ''static/audio_files/a.mp3''\<rparr>"

definition store0 :: store where
  "store0 = \<lparr>rows = [song], pending = [],
              disk = \<lparr>files = [''static/audio_files/a.mp3'' \<mapsto> ''ID3''], undeletable = {}\<rparr>,
              events = []\<rparr>"

text \<open>The same store on a disk that refuses to remove the file.\<close>

definition store_locked :: store where
  "store_locked = \<lparr>rows = [song], pending = [],
              disk = \<lparr>files = [''static/audio_files/a.mp3'' \<mapsto> ''ID3''],
                      undeletable = {''static/audio_files/a.mp3''}\<rparr>,
              events = []\<rparr>"

text \<open>
  Settings as \<open>Settings()\<close> builds them, with the defaults of \<open>config.py\<close>, and the upload of
  the scenario: 5 MB of type \<open>audio/mpeg\<close>.
\<close>

definition settings0 :: Settings where
  "settings0 =
     \<lparr>app = AttrObject ''AppSettings''
              [(''project_name'', AttrStr ''audio-service''), (''debug'', AttrBool False),
               (''environment'', AttrStr ''production''), (''cors_origins'', AttrList [''*''])],
      database = AttrObject ''DatabaseSettings''
              [(''user'', AttrStr ''postgres''), (''password'', SecretStr ''pw''),
               (''db'', AttrStr ''audio''), (''host'', AttrStr ''db''), (''port'', AttrInt 5432),
               (''pool_size'', AttrInt 5), (''max_overflow'', AttrInt 10),
               (''pool_timeout'', AttrInt 30), (''echo_sql'', AttrBool False)],
      auth = AuthSettings ''s3cret'' ''HS256'' 30 7,
      yandex = AttrObject ''YandexOAuthSettings''
              [(''client_id'', AttrStr ''id''), (''client_secret'', SecretStr ''secret''),
               (''redirect_uri'', AttrStr ''http://localhost:8000/auth/yandex/callback''),
               (''frontend_url'', AttrStr ''http://localhost:3000''),
               (''token_url'', AttrStr ''https://oauth.yandex.ru/token''),
               (''auth_url'', AttrStr ''https://oauth.yandex.ru/authorize'')]\<rparr>"

definition mp3_5mb :: upload_file where
  "mp3_5mb = \<lparr>uf_filename = ''take.mp3'', uf_content_type = ''audio/mpeg'',
               uf_bytes = replicate 5000000 (CHR ''x''), uf_pos = 0\<rparr>"

definition mp3_11mb :: upload_file where
  "mp3_11mb = \<lparr>uf_filename = ''long.mp3'', uf_content_type = ''audio/mpeg'',
                uf_bytes = replicate 11000000 (CHR ''x''), uf_pos = 0\<rparr>"

definition text_5mb :: upload_file where
  "text_5mb = \<lparr>uf_filename = ''notes.txt'', uf_content_type = ''text/plain'',
                uf_bytes = replicate 5000000 (CHR ''x''), uf_pos = 0\<rparr>"

text \<open>
  Two users, and three profiles: a first login (subject \<open>42\<close>), a repeated login of the first
  user with a new token, and a login whose subject belongs to the second user while its
  email belongs to the first.
\<close>

definition ann :: user where
  "ann = \<lparr>u_id = ''u1'', u_email = ''ann@example.com'', u_name = Some ''Ann'', u_yandex_id = ''1'',
           u_is_active = True, u_is_superuser = False, u_access_token = Some ''t-old'',
           u_refresh_token = Some [], u_token_expires = Some 1000\<rparr>"

definition ben :: user where
  "ben = \<lparr>u_id = ''u2'', u_email = ''ben@example.com'', u_name = Some ''Ben'', u_yandex_id = ''2'',
           u_is_active = True, u_is_superuser = False, u_access_token = Some ''t-ben'',
           u_refresh_token = Some [], u_token_expires = Some 2000\<rparr>"

definition session0 :: user_session where
  "session0 = \<lparr>users = [ann, ben], work = [], calls = []\<rparr>"

definition first_login :: user_data where
  "first_login = \<lparr>ud_yandex_id = ''42'', ud_email = ''a@b.com'', ud_name = ''a'',
                   ud_access_token = ''t-42'', ud_token_expires = 5000\<rparr>"

definition ann_again :: user_data where
  "ann_again = \<lparr>ud_yandex_id = ''1'', ud_email = ''ann@example.com'', ud_name = ''Ann'',
                 ud_access_token = ''t-new'', ud_token_expires = 6000\<rparr>"

definition crossed :: user_data where
  "crossed = \<lparr>ud_yandex_id = ''2'', ud_email = ''ann@example.com'', ud_name = ''Ann'',
               ud_access_token = ''t-x'', ud_token_expires = 7000\<rparr>"

text \<open>
  A provider that answers both calls with 200: the subject of the second user, the email of
  the first.
\<close>

definition provider0 :: network where
  "provider0 rq =
     (if rq_url rq = ''https://oauth.yandex.ru/tokeninfo''
      then Response 200 ''OK'' [] (Inr [(''user_id'', ''2'')])
      else Response 200 ''OK'' [] (Inr [(''default_email'', ''ann@example.com''),
                                         (''real_name'', ''Ann'')]))"

section \<open>Properties of the settings\<close>

lemma getattr_Settings_absent:
  assumes "name \<notin> set [''app'', ''database'', ''auth'', ''yandex'']"
  shows "getattr (Settings_object settings) name =
           Inl (AttributeError (quoted ''Settings'' @ '' object has no attribute '' @ quoted name))"
  using assms by (simp add: getattr_def Settings_object_def)

lemma getattr_Settings_names:
  "getattr (Settings_object settings) ''audio'' =
     Inl (AttributeError (quoted ''Settings'' @ '' object has no attribute '' @ quoted ''audio''))"
  "getattr (Settings_object settings) ''AUDIO_UPLOAD_DIR'' =
     Inl (AttributeError (quoted ''Settings'' @ '' object has no attribute ''
                            @ quoted ''AUDIO_UPLOAD_DIR''))"
  "getattr (Settings_object settings) ''ACCESS_TOKEN_EXPIRE_MINUTES'' =
     Inl (AttributeError (quoted ''Settings'' @ '' object has no attribute ''
                            @ quoted ''ACCESS_TOKEN_EXPIRE_MINUTES''))"
  "getattr (Settings_object settings) ''SECRET_KEY'' =
     Inl (AttributeError (quoted ''Settings'' @ '' object has no attribute '' @ quoted ''SECRET_KEY''))"
  by (simp_all add: getattr_Settings_absent)

text \<open>
  Two more attribute reads of the same functions name no field either: \<open>AuthSettings\<close> has
  \<open>algorithm\<close>, not \<open>ALGORITHM\<close>, and \<open>AudioSettings\<close> has no \<open>storage_path\<close>.
\<close>

lemma AuthSettings_ALGORITHM:
  "getattr (AuthSettings secret_key algorithm minutes days) ''ALGORITHM'' =
     Inl (AttributeError (quoted ''AuthSettings'' @ '' object has no attribute ''
                            @ quoted ''ALGORITHM''))"
  by (simp add: getattr_def AuthSettings_def)

lemma AudioSettings_storage_path:
  "getattr (AudioSettings max_file_size allowed_types) ''storage_path'' =
     Inl (AttributeError (quoted ''AudioSettings'' @ '' object has no attribute ''
                            @ quoted ''storage_path''))"
  by (simp add: getattr_def AudioSettings_def)

section \<open>Properties of the audio file service\<close>

subsection \<open>The ownership-scoped query\<close>

lemma filter_key_unique:
  "distinct (map g xs) \<Longrightarrow> x \<in> set xs \<Longrightarrow> filter (\<lambda>r. g r = g x) xs = [x]"
proof (induction xs)
  case Nil
  then show ?case by simp
next
  case (Cons a xs)
  show ?case
  proof (cases "a = x")
    case True
    from Cons.prems(1) have "g a \<notin> g ` set xs" by simp
    then have "\<forall>r\<in>set xs. g r \<noteq> g a" by (metis imageI)
    with True have "filter (\<lambda>r. g r = g x) xs = []"
      by (simp add: filter_empty_conv)
    with True show ?thesis by simp
  next
    case False
    with Cons.prems have in_xs: "x \<in> set xs" by simp
    with Cons.prems(1) have "g a \<noteq> g x" by auto
    with Cons.IH Cons.prems(1) in_xs show ?thesis by simp
  qed
qed

lemma no_match_filter:
  "\<forall>r\<in>set xs. af_id r = file_id \<longrightarrow> af_user_id r \<noteq> user_id \<Longrightarrow>
   filter (\<lambda>f. af_user_id f = user_id) (filter (\<lambda>f. af_id f = file_id) xs) = []"
  by (auto simp: filter_empty_conv)

lemma matching_filter:
  assumes "distinct (map af_id xs)" "f \<in> set xs" "af_id f = file_id" "af_user_id f = user_id"
  shows "filter (\<lambda>f. af_user_id f = user_id) (filter (\<lambda>f. af_id f = file_id) xs) = [f]"
proof -
  have "filter (\<lambda>r. af_id r = af_id f) xs = [f]"
    using assms(1,2) by (rule filter_key_unique)
  with assms(3,4) show ?thesis by simp
qed

lemma primary_key_owner:
  assumes "distinct (map af_id xs)" "f \<in> set xs" "af_id f = file_id" "af_user_id f \<noteq> user_id"
  shows "\<forall>r\<in>set xs. af_id r = file_id \<longrightarrow> af_user_id r \<noteq> user_id"
proof (intro ballI impI)
  fix r assume "r \<in> set xs" "af_id r = file_id"
  from assms(1) have inj: "inj_on af_id (set xs)"
    by (simp add: distinct_map)
  from \<open>af_id r = file_id\<close> assms(3) have "af_id r = af_id f" by simp
  with inj have "r = f"
    using \<open>r \<in> set xs\<close> assms(2) by (rule inj_onD)
  with assms(4) show "af_user_id r \<noteq> user_id" by simp
qed

lemma scalar_one_or_none_Some:
  "scalar_one_or_none xs = Inr (Some x) \<Longrightarrow> xs = [x]"
  by (cases xs rule: scalar_one_or_none.cases) auto

lemma get_audio_file_not_matching:
  assumes "\<forall>r\<in>set (rows s). af_id r = file_id \<longrightarrow> af_user_id r \<noteq> user_id"
  shows "get_audio_file from_orm file_id user_id s = (Inr None, s\<lparr>events := events s @ [EvSelect]\<rparr>)"
  using no_match_filter[OF assms]
  by (simp add: get_audio_file_def emit_def Let_def)

lemma get_audio_file_Some:
  assumes "fst (get_audio_file from_orm file_id user_id s) = Inr (Some m)"
  shows "\<exists>r\<in>set (rows s). af_id r = file_id \<and> af_user_id r = user_id \<and> from_orm r = Inr m"
proof -
  let ?res = "filter (\<lambda>f. af_user_id f = user_id) (filter (\<lambda>f. af_id f = file_id) (rows s))"
  from assms obtain row where one: "scalar_one_or_none ?res = Inr (Some row)"
    and conv: "from_orm row = Inr m"
    by (auto simp: get_audio_file_def emit_def Let_def split: sum.splits option.splits)
  from one have "?res = [row]" by (rule scalar_one_or_none_Some)
  then have "row \<in> set ?res" by simp
  then have "row \<in> set (rows s)" "af_id row = file_id" "af_user_id row = user_id" by auto
  with conv show ?thesis by blast
qed

lemma get_audio_file_owned:
  assumes "distinct (map af_id (rows s))" "f \<in> set (rows s)" "af_id f = file_id"
    "af_user_id f = user_id" "from_orm f = Inr m"
  shows "fst (get_audio_file from_orm file_id user_id s) = Inr (Some m)"
  using matching_filter[OF assms(1-4)] assms(5)
  by (simp add: get_audio_file_def emit_def Let_def)

text \<open>
  C5. Ownership non-leak of \<open>get_audio_file\<close>. In a store \<open>s1\<close> where no row has the id, and
  in a store \<open>s2\<close> where the row with the id belongs to another user, the call returns the
  same response, \<open>None\<close>. In every store, a returned metadata record is the conversion of a
  row that has the id and belongs to the caller, and such a row (whose conversion succeeds)
  is returned.
\<close>

theorem get_audio_file_ownership:
  assumes absent: "\<forall>r\<in>set (rows s1). af_id r \<noteq> file_id"
    and pk: "distinct (map af_id (rows s2))"
    and other: "f \<in> set (rows s2)" "af_id f = file_id" "af_user_id f \<noteq> owner"
  shows "fst (get_audio_file from_orm file_id owner s1) = Inr None
       \<and> fst (get_audio_file from_orm file_id owner s2) = Inr None
       \<and> fst (get_audio_file from_orm file_id owner s1) = fst (get_audio_file from_orm file_id owner s2)
       \<and> (\<forall>s m. fst (get_audio_file from_orm file_id owner s) = Inr (Some m) \<longrightarrow>
             (\<exists>r\<in>set (rows s). af_id r = file_id \<and> af_user_id r = owner \<and> from_orm r = Inr m))
       \<and> (\<forall>s r m. distinct (map af_id (rows s)) \<and> r \<in> set (rows s) \<and> af_id r = file_id
               \<and> af_user_id r = owner \<and> from_orm r = Inr m \<longrightarrow>
             fst (get_audio_file from_orm file_id owner s) = Inr (Some m))"
proof -
  from absent have "\<forall>r\<in>set (rows s1). af_id r = file_id \<longrightarrow> af_user_id r \<noteq> owner"
    by simp
  then have one: "fst (get_audio_file from_orm file_id owner s1) = Inr None"
    by (simp add: get_audio_file_not_matching)
  have "\<forall>r\<in>set (rows s2). af_id r = file_id \<longrightarrow> af_user_id r \<noteq> owner"
    using pk other by (rule primary_key_owner)
  then have two: "fst (get_audio_file from_orm file_id owner s2) = Inr None"
    by (simp add: get_audio_file_not_matching)
  have only: "\<forall>s m. fst (get_audio_file from_orm file_id owner s) = Inr (Some m) \<longrightarrow>
             (\<exists>r\<in>set (rows s). af_id r = file_id \<and> af_user_id r = owner \<and> from_orm r = Inr m)"
  proof (intro allI impI)
    fix s :: store and m
    assume "fst (get_audio_file from_orm file_id owner s) = Inr (Some m)"
    then show "\<exists>r\<in>set (rows s). af_id r = file_id \<and> af_user_id r = owner \<and> from_orm r = Inr m"
      by (rule get_audio_file_Some)
  qed
  have found: "\<forall>s r m. distinct (map af_id (rows s)) \<and> r \<in> set (rows s) \<and> af_id r = file_id
               \<and> af_user_id r = owner \<and> from_orm r = Inr m \<longrightarrow>
             fst (get_audio_file from_orm file_id owner s) = Inr (Some m)"
  proof (intro allI impI)
    fix s :: store and r m
    assume "distinct (map af_id (rows s)) \<and> r \<in> set (rows s) \<and> af_id r = file_id
               \<and> af_user_id r = owner \<and> from_orm r = Inr m"
    then show "fst (get_audio_file from_orm file_id owner s) = Inr (Some m)"
      by (elim conjE) (rule get_audio_file_owned, assumption+)
  qed
  from one two have "fst (get_audio_file from_orm file_id owner s1) = fst (get_audio_file from_orm file_id owner s2)"
    by simp
  with one two only found show ?thesis by (intro conjI)
qed

theorem get_audio_file_ownership_witness:
  "fst (get_audio_file Inr ''f1'' ''bob'' (store0\<lparr>rows := []\<rparr>)) = (Inr None :: error + audio_file option)
   \<and> fst (get_audio_file Inr ''f1'' ''bob'' store0) = (Inr None :: error + audio_file option)"
proof -
  have absent: "\<forall>r\<in>set (rows (store0\<lparr>rows := []\<rparr>)). af_id r \<noteq> ''f1''"
    by simp
  have pk: "distinct (map af_id (rows store0))"
    and r: "song \<in> set (rows store0)" "af_id song = ''f1''"
    and o: "af_user_id song \<noteq> ''bob''"
    by (simp_all add: store0_def song_def)
  note t = get_audio_file_ownership[OF absent pk r o, where from_orm = Inr]
  from t[THEN conjunct1] t[THEN conjunct2, THEN conjunct1] show ?thesis
    by (rule conjI)
qed

subsection \<open>Deleting a file\<close>

lemma delete_owned_result:
  assumes pk: "distinct (map af_id (rows s))" and fresh: "pending s = []"
    and row: "f \<in> set (rows s)" "af_id f = file_id" "af_user_id f = user_id"
  shows "delete_audio_file file_id user_id s =
           (Inr True,
            s\<lparr>rows := filter (\<lambda>r. af_id r \<noteq> file_id) (rows s),
              pending := [],
              disk := (case os_unlink (af_file_path f) (disk s) of Inl e \<Rightarrow> disk s | Inr d \<Rightarrow> d),
              events := events s @ [EvSelect, EvUnlink (af_file_path f)]
                 @ (case os_unlink (af_file_path f) (disk s) of Inl e \<Rightarrow> [EvPrint] | Inr d \<Rightarrow> [])
                 @ [EvDelete file_id, EvCommit]\<rparr>)"
proof -
  have sel: "filter (\<lambda>f. af_user_id f = user_id) (filter (\<lambda>f. af_id f = file_id) (rows s)) = [f]"
    using pk row by (rule matching_filter)
  show ?thesis
    using sel fresh row(2)
    by (cases "os_unlink (af_file_path f) (disk s)")
       (simp_all add: delete_audio_file_def try_unlink_def session_delete_def commit_def
          emit_def Let_def)
qed

lemma os_unlink_absent:
  "p \<notin> undeletable d \<Longrightarrow>
   files (case os_unlink p d of Inl e \<Rightarrow> d | Inr d' \<Rightarrow> d') p = None"
  by (simp add: os_unlink_def)

text \<open>
  C8. For a file owned by the caller (a row with the id and the caller as owner, in a table
  whose primary key is unique, on a session with nothing staged) \<open>delete_audio_file\<close> returns
  \<open>True\<close>. The trace shows the order: the query, the unlink attempt, the print when the
  unlink raised, then the row's deletion and the commit. The row is gone whatever the
  unlink did, so a later \<open>get_audio_file\<close> returns \<open>None\<close>. When the operating system did
  not refuse the removal, no file is left at the row's path. The instances are a delete
  whose unlink succeeds and one whose unlink is refused.
\<close>

theorem delete_audio_file_owned:
  assumes pk: "distinct (map af_id (rows s))" and fresh: "pending s = []"
    and row: "f \<in> set (rows s)" "af_id f = file_id" "af_user_id f = user_id"
  shows "fst (delete_audio_file file_id user_id s) = Inr True
       \<and> rows (snd (delete_audio_file file_id user_id s)) = filter (\<lambda>r. af_id r \<noteq> file_id) (rows s)
       \<and> pending (snd (delete_audio_file file_id user_id s)) = []
       \<and> events (snd (delete_audio_file file_id user_id s)) =
           events s @ [EvSelect, EvUnlink (af_file_path f)]
             @ (case os_unlink (af_file_path f) (disk s) of Inl e \<Rightarrow> [EvPrint] | Inr d \<Rightarrow> [])
             @ [EvDelete file_id, EvCommit]
       \<and> fst (get_audio_file from_orm file_id user_id (snd (delete_audio_file file_id user_id s))) = Inr None
       \<and> (af_file_path f \<notin> undeletable (disk s) \<longrightarrow>
            files (disk (snd (delete_audio_file file_id user_id s))) (af_file_path f) = None)"
proof -
  let ?s' = "snd (delete_audio_file file_id user_id s)"
  note res = delete_owned_result[OF assms]
  have gone: "\<forall>r\<in>set (rows ?s'). af_id r = file_id \<longrightarrow> af_user_id r \<noteq> user_id"
    by (simp add: res)
  have "fst (get_audio_file from_orm file_id user_id ?s') = Inr None"
    by (simp add: get_audio_file_not_matching[OF gone])
  moreover have "af_file_path f \<notin> undeletable (disk s) \<longrightarrow> files (disk ?s') (af_file_path f) = None"
    by (simp add: res os_unlink_absent)
  ultimately show ?thesis by (simp add: res)
qed

theorem delete_audio_file_owned_witness:
  "fst (delete_audio_file ''f1'' ''alice'' store0) = Inr True
   \<and> rows (snd (delete_audio_file ''f1'' ''alice'' store0)) = []
   \<and> events (snd (delete_audio_file ''f1'' ''alice'' store0)) =
        [EvSelect, EvUnlink ''static/audio_files/a.mp3'', EvDelete ''f1'', EvCommit]
   \<and> fst (get_audio_file Inr ''f1'' ''alice'' (snd (delete_audio_file ''f1'' ''alice'' store0)))
        = (Inr None :: error + audio_file option)
   \<and> files (disk (snd (delete_audio_file ''f1'' ''alice'' store0))) ''static/audio_files/a.mp3'' = None
   \<and> fst (delete_audio_file ''f1'' ''alice'' store_locked) = Inr True
   \<and> rows (snd (delete_audio_file ''f1'' ''alice'' store_locked)) = []
   \<and> events (snd (delete_audio_file ''f1'' ''alice'' store_locked)) =
        [EvSelect, EvUnlink ''static/audio_files/a.mp3'', EvPrint, EvDelete ''f1'', EvCommit]"
proof -
  have pk: "distinct (map af_id (rows store0))" and fresh: "pending store0 = []"
    and r: "song \<in> set (rows store0)" "af_id song = ''f1''" "af_user_id song = ''alice''"
    by (simp_all add: store0_def song_def)
  have p: "af_file_path song = ''static/audio_files/a.mp3''" by (simp add: song_def)
  have u: "os_unlink ''static/audio_files/a.mp3'' (disk store0)
             = Inr \<lparr>files = Map.empty, undeletable = {}\<rparr>"
    by (simp add: os_unlink_def store0_def)
  have n: "''static/audio_files/a.mp3'' \<notin> undeletable (disk store0)" by (simp add: store0_def)
  have e: "events store0 = []" "rows store0 = [song]" by (simp_all add: store0_def)
  have first: "fst (delete_audio_file ''f1'' ''alice'' store0) = Inr True
   \<and> rows (snd (delete_audio_file ''f1'' ''alice'' store0)) = []
   \<and> events (snd (delete_audio_file ''f1'' ''alice'' store0)) =
        [EvSelect, EvUnlink ''static/audio_files/a.mp3'', EvDelete ''f1'', EvCommit]
   \<and> fst (get_audio_file Inr ''f1'' ''alice'' (snd (delete_audio_file ''f1'' ''alice'' store0)))
        = (Inr None :: error + audio_file option)
   \<and> files (disk (snd (delete_audio_file ''f1'' ''alice'' store0))) ''static/audio_files/a.mp3'' = None"
    using delete_audio_file_owned[OF pk fresh r, where from_orm = Inr] n
    by (simp add: p u e r)
  have pk': "distinct (map af_id (rows store_locked))" and fresh': "pending store_locked = []"
    and r': "song \<in> set (rows store_locked)"
    by (simp_all add: store_locked_def song_def)
  have u': "os_unlink ''static/audio_files/a.mp3'' (disk store_locked) = Inl PermissionError"
    by (simp add: os_unlink_def store_locked_def)
  have e': "events store_locked = []" "rows store_locked = [song]"
    by (simp_all add: store_locked_def)
  have second: "fst (delete_audio_file ''f1'' ''alice'' store_locked) = Inr True
   \<and> rows (snd (delete_audio_file ''f1'' ''alice'' store_locked)) = []
   \<and> events (snd (delete_audio_file ''f1'' ''alice'' store_locked)) =
        [EvSelect, EvUnlink ''static/audio_files/a.mp3'', EvPrint, EvDelete ''f1'', EvCommit]"
    using delete_audio_file_owned[OF pk' fresh' r' r(2,3),
        where from_orm = "Inr :: audio_file \<Rightarrow> error + audio_file"]
    by (simp add: p u' e' r)
  from first second show ?thesis by simp
qed

text \<open>
  C10. Failure frame of \<open>delete_audio_file\<close>: when no row has both the id and the caller as
  owner, the call returns \<open>False\<close> and the state afterwards is the state before with the
  query alone added to the trace: the committed rows, the staged rows and the disk are the
  same, and neither an unlink, a deletion nor a commit took place. The instance is a file
  that exists and belongs to another user.
\<close>

theorem delete_audio_file_frame:
  assumes "\<forall>r\<in>set (rows s). af_id r = file_id \<longrightarrow> af_user_id r \<noteq> user_id"
  shows "delete_audio_file file_id user_id s = (Inr False, s\<lparr>events := events s @ [EvSelect]\<rparr>)"
  using no_match_filter[OF assms]
  by (simp add: delete_audio_file_def emit_def Let_def)

theorem delete_audio_file_frame_witness:
  "delete_audio_file ''f1'' ''bob'' store0 = (Inr False, store0\<lparr>events := [EvSelect]\<rparr>)
   \<and> rows (snd (delete_audio_file ''f1'' ''bob'' store0)) = [song]
   \<and> files (disk (snd (delete_audio_file ''f1'' ''bob'' store0))) (af_file_path song) = Some ''ID3''"
proof -
  have h: "\<forall>r\<in>set (rows store0). af_id r = ''f1'' \<longrightarrow> af_user_id r \<noteq> ''bob''"
    by (simp add: store0_def song_def)
  have e: "events store0 = []" by (simp add: store0_def)
  have eq: "delete_audio_file ''f1'' ''bob'' store0 = (Inr False, store0\<lparr>events := [EvSelect]\<rparr>)"
    using delete_audio_file_frame[OF h] by (simp add: e)
  have "rows store0 = [song]" and "files (disk store0) (af_file_path song) = Some ''ID3''"
    by (simp_all add: store0_def song_def)
  with eq show ?thesis by simp
qed

section \<open>Properties of the upload\<close>

lemma upload_attribute_error:
  "upload_audio_file settings from_orm name_uuid row_uuid user_id upload s =
     (Inl (AttributeError (quoted ''Settings'' @ '' object has no attribute '' @ quoted ''audio'')),
      s)"
  by (simp add: upload_audio_file_def getattr_Settings_names)

lemma save_attribute_error:
  "save_audio_file settings from_orm name_uuid row_uuid user_id upload s =
     (Inl (AttributeError (quoted ''Settings'' @ '' object has no attribute ''
                             @ quoted ''AUDIO_UPLOAD_DIR'')),
      emit EvClose s)"
  by (simp add: save_audio_file_def getattr_Settings_names Let_def)

lemma example_uploads:
  "length (uf_bytes mp3_5mb) = 5000000" "uf_content_type mp3_5mb = ''audio/mpeg''"
  "length (uf_bytes mp3_11mb) = 11000000" "uf_content_type mp3_11mb = ''audio/mpeg''"
  "uf_content_type text_5mb = ''text/plain''"
  by (simp_all add: mp3_5mb_def mp3_11mb_def text_5mb_def)

text \<open>
  C6, evaluated. Whatever the settings object, the upload and the state, the first
  statement of \<open>upload_audio_file\<close> raises \<open>AttributeError\<close>, because \<open>Settings\<close> has no
  attribute \<open>audio\<close>: the route answers neither 413 nor 400, whatever the size and the
  content type of the upload. The state is the state given: nothing is written and no row
  is staged. So the 11 MB upload of type \<open>audio/mpeg\<close> is not answered with 413 and the
  upload of type \<open>text/plain\<close> is not answered with 400.
\<close>

theorem upload_audio_file_never_rejects:
  "upload_audio_file settings from_orm name_uuid row_uuid user_id upload s =
     (Inl (AttributeError (quoted ''Settings'' @ '' object has no attribute '' @ quoted ''audio'')),
      s)
   \<and> length (uf_bytes mp3_11mb) = 11000000
   \<and> fst (upload_audio_file settings0 (Inr :: audio_file \<Rightarrow> error + audio_file)
            ''n1'' ''r1'' ''alice'' mp3_11mb store0) \<noteq> Inl (HTTPException 413 detail)
   \<and> uf_content_type text_5mb = ''text/plain''
   \<and> fst (upload_audio_file settings0 (Inr :: audio_file \<Rightarrow> error + audio_file)
            ''n1'' ''r1'' ''alice'' text_5mb store0) \<noteq> Inl (HTTPException 400 detail)"
  by (simp add: upload_attribute_error example_uploads)

text \<open>
  C7, evaluated at the scenario's input: the 5 MB upload of type \<open>audio/mpeg\<close> is not
  stored. The route raises \<open>AttributeError\<close> at its first statement, the state is
  unchanged, and the owner's list afterwards holds what it held before. The service called
  directly, with any settings object, raises \<open>AttributeError\<close> as well, at
  \<open>settings.AUDIO_UPLOAD_DIR\<close>: after \<open>file.close()\<close> the state differs from the one given by
  that one event only, so no byte is written and no row added.
\<close>

theorem upload_valid_file_raises:
  "length (uf_bytes mp3_5mb) = 5000000 \<and> uf_content_type mp3_5mb = ''audio/mpeg''
   \<and> upload_audio_file settings0 (Inr :: audio_file \<Rightarrow> error + audio_file)
       ''n1'' ''r1'' ''alice'' mp3_5mb store0 =
     (Inl (AttributeError (quoted ''Settings'' @ '' object has no attribute '' @ quoted ''audio'')),
      store0)
   \<and> fst (get_user_audio_files (Inr :: audio_file \<Rightarrow> error + audio_file) ''alice'' store0)
       = Inr [song]
   \<and> save_audio_file settings (Inr :: audio_file \<Rightarrow> error + audio_file)
       ''n1'' ''r1'' ''alice'' mp3_5mb s =
     (Inl (AttributeError (quoted ''Settings'' @ '' object has no attribute ''
                             @ quoted ''AUDIO_UPLOAD_DIR'')),
      emit EvClose s)
   \<and> rows (emit EvClose s) = rows s \<and> pending (emit EvClose s) = pending s
   \<and> disk (emit EvClose s) = disk s"
proof -
  have "fst (get_user_audio_files (Inr :: audio_file \<Rightarrow> error + audio_file) ''alice'' store0)
       = Inr [song]"
    by (simp add: get_user_audio_files_def emit_def store0_def song_def)
  then show ?thesis
    by (simp add: upload_attribute_error save_attribute_error example_uploads emit_def)
qed

section \<open>Properties of the provider calls\<close>

lemma get_yandex_user_info_timeouts:
  "rq_timeout (tokeninfo_request t) = Some 10 \<and> rq_timeout (info_request t) = Some 10"
  by (simp add: tokeninfo_request_def info_request_def)

lemma get_yandex_user_info_requests:
  "snd (get_yandex_user_info net t) = [tokeninfo_request t]
   \<or> snd (get_yandex_user_info net t) = [tokeninfo_request t, info_request t]"
  by (simp add: get_yandex_user_info_def Let_def split: http_result.splits sum.splits)

lemma get_yandex_user_info_unavailable:
  "net (tokeninfo_request t) = RequestError msg \<Longrightarrow>
   get_yandex_user_info net t =
     (Inl (HTTPException 503 ''Yandex OAuth service unavailable''), [tokeninfo_request t])"
  "net (tokeninfo_request t) = Response st rs tx (Inr td) \<Longrightarrow> is_success st \<Longrightarrow>
   net (info_request t) = RequestError msg \<Longrightarrow>
   get_yandex_user_info net t =
     (Inl (HTTPException 503 ''Yandex OAuth service unavailable''),
      [tokeninfo_request t, info_request t])"
  by (simp_all add: get_yandex_user_info_def Let_def)

text \<open>
  C9, evaluated at a failing input: the token exchange of \<open>app/routes/yandex.py\<close> carries no
  timeout, and when the connection to the provider fails the route answers 400, not 503.
  The request is made once.
\<close>

theorem yandex_callback_network_failure:
  "rq_timeout (token_request ''code'' ''id'' ''secret'') = None
   \<and> yandex_callback (\<lambda>rq. RequestError ''Connection refused'') ''code'' ''id'' ''secret''
       = (Inl (HTTPException 400 ''Yandex OAuth error: Connection refused''),
          [token_request ''code'' ''id'' ''secret''])"
  by (simp add: yandex_callback_def token_request_def)

section \<open>Properties of the reconciliation\<close>

lemma find_replaced:
  "u \<in> set t \<Longrightarrow> u_id u = i \<Longrightarrow> u_id r = i \<Longrightarrow>
   find (\<lambda>x. u_id x = i) (map (\<lambda>x. if u_id x = i then r else x) t) = Some r"
  by (induction t) auto

lemma find_appended:
  "i \<notin> u_id ` set t \<Longrightarrow> u_id r = i \<Longrightarrow> find (\<lambda>x. u_id x = i) (t @ [r]) = Some r"
  by (induction t) auto

lemma first_row_member:
  "first_row (filter P t) = Some u \<Longrightarrow> u \<in> set t \<and> P u"
proof -
  assume "first_row (filter P t) = Some u"
  then obtain rest where "filter P t = u # rest"
    by (auto simp: first_row_def split: list.splits)
  then have "u \<in> set (filter P t)" by simp
  then show ?thesis by simp
qed

lemma unique_email:
  assumes "distinct (map u_email t)" "u \<in> set t" "x \<in> set t" "u_email x = u_email u"
  shows "x = u"
proof -
  from assms(1) have "inj_on u_email (set t)" by (simp add: distinct_map)
  then show ?thesis using assms(4,3,2) by (rule inj_onD)
qed

lemma assigned_fields:
  "(let user1 = (u::user)\<lparr>u_access_token := Some a\<rparr>;
        user2 = user1\<lparr>u_token_expires := Some e\<rparr>;
        user3 = (if u_yandex_id user2 \<noteq> y then user2\<lparr>u_yandex_id := y\<rparr> else user2);
        user4 = (if u_name user3 \<noteq> Some n then user3\<lparr>u_name := Some n\<rparr> else user3)
    in f user4)
   = f (u\<lparr>u_access_token := Some a, u_token_expires := Some e, u_yandex_id := y, u_name := Some n\<rparr>)"
  by (cases u) (auto simp: Let_def)

lemma found_result:
  assumes emails: "distinct (map u_email (users s))"
    and fresh: "work s = []"
    and found: "first_row (filter (\<lambda>x. u_yandex_id x = ud_yandex_id d \<or> u_email x = ud_email d)
                  (users s)) = Some u"
    and free: "\<forall>x\<in>set (users s). u_yandex_id x = ud_yandex_id d \<longrightarrow> u_id x = u_id u"
  shows "get_or_create_user new_id d s =
           (Inr (u\<lparr>u_access_token := Some (ud_access_token d),
                   u_token_expires := Some (ud_token_expires d),
                   u_yandex_id := ud_yandex_id d, u_name := Some (ud_name d)\<rparr>),
            s\<lparr>users := map (\<lambda>x. if u_id x = u_id u
                      then u\<lparr>u_access_token := Some (ud_access_token d),
                             u_token_expires := Some (ud_token_expires d),
                             u_yandex_id := ud_yandex_id d, u_name := Some (ud_name d)\<rparr>
                      else x) (users s),
              calls := calls s @ [Execute, Commit, Refresh]\<rparr>)"
proof -
  let ?u' = "u\<lparr>u_access_token := Some (ud_access_token d),
                u_token_expires := Some (ud_token_expires d),
                u_yandex_id := ud_yandex_id d, u_name := Some (ud_name d)\<rparr>"
  from found have mem: "u \<in> set (users s)"
    using first_row_member by fastforce
  have no_clash: "\<not> clashes ?u' (filter (\<lambda>x. u_id x \<noteq> u_id ?u') (users s))"
  proof
    assume "clashes ?u' (filter (\<lambda>x. u_id x \<noteq> u_id ?u') (users s))"
    then obtain x where x: "x \<in> set (users s)" "u_id x \<noteq> u_id u"
      and c: "u_email x = u_email u \<or> u_yandex_id x = ud_yandex_id d"
      by (auto simp: clashes_def)
    from c show False
    proof
      assume "u_email x = u_email u"
      with emails mem x(1) have "x = u" by (rule unique_email)
      with x(2) show False by simp
    next
      assume "u_yandex_id x = ud_yandex_id d"
      with free x(1) have "u_id x = u_id u" by simp
      with x(2) show False by simp
    qed
  qed
  have reread: "find (\<lambda>x. u_id x = u_id u)
                (map (\<lambda>x. if u_id x = u_id u then ?u' else x) (users s)) = Some ?u'"
    using mem by (rule find_replaced) simp_all
  show ?thesis
    unfolding get_or_create_user_def
    apply (subst assigned_fields)
    using found no_clash reread fresh
    apply (simp add: assigned_def commit_users_def refresh_def called_def Let_def)
    done
qed

lemma created_result:
  assumes none: "filter (\<lambda>x. u_yandex_id x = ud_yandex_id d \<or> u_email x = ud_email d) (users s) = []"
    and fresh: "work s = []"
    and new: "new_id \<notin> u_id ` set (users s)"
  shows "get_or_create_user new_id d s =
           (Inr \<lparr>u_id = new_id, u_email = ud_email d, u_name = Some (ud_name d),
                 u_yandex_id = ud_yandex_id d, u_is_active = True, u_is_superuser = False,
                 u_access_token = Some (ud_access_token d), u_refresh_token = Some [],
                 u_token_expires = Some (ud_token_expires d)\<rparr>,
            s\<lparr>users := users s @
                 [\<lparr>u_id = new_id, u_email = ud_email d, u_name = Some (ud_name d),
                   u_yandex_id = ud_yandex_id d, u_is_active = True, u_is_superuser = False,
                   u_access_token = Some (ud_access_token d), u_refresh_token = Some [],
                   u_token_expires = Some (ud_token_expires d)\<rparr>],
              calls := calls s @ [Execute, Add, Commit, Refresh]\<rparr>)"
proof -
  let ?n = "\<lparr>u_id = new_id, u_email = ud_email d, u_name = Some (ud_name d),
             u_yandex_id = ud_yandex_id d, u_is_active = True, u_is_superuser = False,
             u_access_token = Some (ud_access_token d), u_refresh_token = Some [],
             u_token_expires = Some (ud_token_expires d)\<rparr>"
  from none have "\<forall>x\<in>set (users s). \<not> (u_yandex_id x = ud_yandex_id d \<or> u_email x = ud_email d)"
    by (simp add: filter_empty_conv)
  with new have no_clash: "\<not> clashes ?n (users s)"
    by (auto simp: clashes_def)
  have reread: "find (\<lambda>x. u_id x = new_id) (users s @ [?n]) = Some ?n"
    using new by (rule find_appended) simp
  show ?thesis
    using none no_clash reread fresh
    by (simp add: get_or_create_user_def first_row_def session_add_user_def commit_users_def
          refresh_def called_def Let_def)
qed

text \<open>
  C3, as stated, fails: a row is found, by its email, and no row is returned, because
  setting its \<open>yandex_id\<close> to the profile's collides with the row that already holds that
  \<open>yandex_id\<close>. The commit raises \<open>IntegrityError\<close> and the table is as it was.
\<close>

theorem get_or_create_user_counterexample:
  "first_row (filter (\<lambda>x. u_yandex_id x = ud_yandex_id crossed \<or> u_email x = ud_email crossed)
      (users session0)) = Some ann
   \<and> fst (get_or_create_user ''u3'' crossed session0) = Inl IntegrityError
   \<and> users (snd (get_or_create_user ''u3'' crossed session0)) = users session0"
  by (simp add: get_or_create_user_def first_row_def assigned_def commit_users_def called_def
        clashes_def session0_def ann_def ben_def crossed_def Let_def)

text \<open>
  C3, amended. The lookup takes the first row whose \<open>yandex_id\<close> or \<open>email\<close> is the profile's.
  When a row \<open>u\<close> is found and no other row holds the profile's \<open>yandex_id\<close> (the email column
  being unique, the session having nothing staged), the function returns that row with
  \<open>access_token\<close>, \<open>token_expires\<close>, \<open>yandex_id\<close> and \<open>name\<close> set from the profile and every
  other column, the \<open>id\<close> among them, as it was; the table holds the same number of rows, the
  found one replaced. When no row is found (and the generated id is fresh), it returns a new
  row with the profile's fields, an empty \<open>refresh_token\<close>, \<open>is_active\<close> true and
  \<open>is_superuser\<close> false, and the table is the old one with exactly that row appended.
\<close>

theorem get_or_create_user_reconciles:
  assumes emails: "distinct (map u_email (users s))"
    and fresh: "work s = []"
    and found: "first_row (filter (\<lambda>x. u_yandex_id x = ud_yandex_id d \<or> u_email x = ud_email d)
                  (users s)) = Some u"
    and free: "\<forall>x\<in>set (users s). u_yandex_id x = ud_yandex_id d \<longrightarrow> u_id x = u_id u"
    and none: "filter (\<lambda>x. u_yandex_id x = ud_yandex_id d' \<or> u_email x = ud_email d') (users s') = []"
    and fresh': "work s' = []"
    and new: "new_id \<notin> u_id ` set (users s')"
  shows "fst (get_or_create_user i d s) =
           Inr (u\<lparr>u_access_token := Some (ud_access_token d),
                   u_token_expires := Some (ud_token_expires d),
                   u_yandex_id := ud_yandex_id d, u_name := Some (ud_name d)\<rparr>)
       \<and> users (snd (get_or_create_user i d s)) =
           map (\<lambda>x. if u_id x = u_id u
                     then u\<lparr>u_access_token := Some (ud_access_token d),
                            u_token_expires := Some (ud_token_expires d),
                            u_yandex_id := ud_yandex_id d, u_name := Some (ud_name d)\<rparr>
                     else x) (users s)
       \<and> length (users (snd (get_or_create_user i d s))) = length (users s)
       \<and> fst (get_or_create_user new_id d' s') =
           Inr \<lparr>u_id = new_id, u_email = ud_email d', u_name = Some (ud_name d'),
                 u_yandex_id = ud_yandex_id d', u_is_active = True, u_is_superuser = False,
                 u_access_token = Some (ud_access_token d'), u_refresh_token = Some [],
                 u_token_expires = Some (ud_token_expires d')\<rparr>
       \<and> users (snd (get_or_create_user new_id d' s')) =
           users s' @
             [\<lparr>u_id = new_id, u_email = ud_email d', u_name = Some (ud_name d'),
               u_yandex_id = ud_yandex_id d', u_is_active = True, u_is_superuser = False,
               u_access_token = Some (ud_access_token d'), u_refresh_token = Some [],
               u_token_expires = Some (ud_token_expires d')\<rparr>]"
  by (simp add: found_result[OF emails fresh found free] created_result[OF none fresh' new])

theorem get_or_create_user_reconciles_witness:
  "fst (get_or_create_user ''u3'' ann_again session0) =
     Inr (ann\<lparr>u_access_token := Some ''t-new'', u_token_expires := Some 6000\<rparr>)
   \<and> users (snd (get_or_create_user ''u3'' ann_again session0)) =
       [ann\<lparr>u_access_token := Some ''t-new'', u_token_expires := Some 6000\<rparr>, ben]
   \<and> fst (get_or_create_user ''u3'' first_login session0) =
       Inr \<lparr>u_id = ''u3'', u_email = ''a@b.com'', u_name = Some ''a'', u_yandex_id = ''42'',
             u_is_active = True, u_is_superuser = False, u_access_token = Some ''t-42'',
             u_refresh_token = Some [], u_token_expires = Some 5000\<rparr>
   \<and> users (snd (get_or_create_user ''u3'' first_login session0)) =
       [ann, ben,
        \<lparr>u_id = ''u3'', u_email = ''a@b.com'', u_name = Some ''a'', u_yandex_id = ''42'',
          u_is_active = True, u_is_superuser = False, u_access_token = Some ''t-42'',
          u_refresh_token = Some [], u_token_expires = Some 5000\<rparr>]"
proof -
  have emails: "distinct (map u_email (users session0))"
    and fresh: "work session0 = []"
    and found: "first_row (filter (\<lambda>x. u_yandex_id x = ud_yandex_id ann_again
                    \<or> u_email x = ud_email ann_again) (users session0)) = Some ann"
    and free: "\<forall>x\<in>set (users session0). u_yandex_id x = ud_yandex_id ann_again \<longrightarrow> u_id x = u_id ann"
    and none: "filter (\<lambda>x. u_yandex_id x = ud_yandex_id first_login
                    \<or> u_email x = ud_email first_login) (users session0) = []"
    and new: "''u3'' \<notin> u_id ` set (users session0)"
    by (simp_all add: session0_def ann_def ben_def ann_again_def first_login_def first_row_def)
  note t = get_or_create_user_reconciles[OF emails fresh found free none fresh new, of "''u3''"]
  have l: "users session0 = [ann, ben]" by (simp add: session0_def)
  have a: "ann\<lparr>u_access_token := Some (ud_access_token ann_again),
               u_token_expires := Some (ud_token_expires ann_again),
               u_yandex_id := ud_yandex_id ann_again, u_name := Some (ud_name ann_again)\<rparr>
           = ann\<lparr>u_access_token := Some ''t-new'', u_token_expires := Some 6000\<rparr>"
    by (simp add: ann_def ann_again_def)
  have i: "u_id ben \<noteq> u_id ann" by (simp add: ann_def ben_def)
  have f: "ud_email first_login = ''a@b.com''" "ud_name first_login = ''a''"
    "ud_yandex_id first_login = ''42''" "ud_access_token first_login = ''t-42''"
    "ud_token_expires first_login = 5000"
    by (simp_all add: first_login_def)
  from t show ?thesis
    by (simp add: l a i f)
qed

subsection \<open>A uniqueness violation during authentication\<close>

lemma integrity_error_state:
  assumes "fst (get_or_create_user i d s) = Inl IntegrityError"
  shows "users (snd (get_or_create_user i d s)) = users s
       \<and> (calls (snd (get_or_create_user i d s)) = calls s @ [Execute, Commit]
          \<or> calls (snd (get_or_create_user i d s)) = calls s @ [Execute, Add, Commit])"
  using assms
  unfolding get_or_create_user_def
  apply (subst (asm) assigned_fields)
  apply (subst assigned_fields)
  apply (subst assigned_fields)
  apply (subst assigned_fields)
  apply (auto simp: assigned_def session_add_user_def commit_users_def refresh_def called_def
           Let_def split: option.splits sum.splits if_splits)
  done

text \<open>
  C4. When the provider's profile is complete and the insert or update of
  \<open>_get_or_create_user\<close> raises \<open>IntegrityError\<close>, \<open>authenticate_user\<close> fails with 409. The
  session was rolled back: nothing is staged, the table is the table before the request (so
  no row was added or changed), and the calls on the session are one query, one commit (with
  the \<open>add\<close> before it when a row was being inserted) and the rollback: nothing was tried a
  second time.
\<close>

theorem authenticate_user_conflict:
  assumes info: "fst (get_yandex_user_info net tok) = Inr yd"
    and uid: "map_of yd ''user_id'' = Some yid"
    and email: "map_of yd ''default_email'' = Some em"
    and viol: "fst (get_or_create_user new_id
                 \<lparr>ud_yandex_id = yid, ud_email = em,
                  ud_name = or_else (map_of yd ''real_name'')
                              (or_else (map_of yd ''display_name'')
                                 (takeWhile (\<lambda>c. c \<noteq> CHR ''@'') em)),
                  ud_access_token = tok, ud_token_expires = now + 30 * 86400\<rparr> s)
               = Inl IntegrityError"
  shows "fst (authenticate_user net now new_id tok s) =
           Inl (HTTPException 409 ''User already exists with different credentials'')
       \<and> users (snd (authenticate_user net now new_id tok s)) = users s
       \<and> work (snd (authenticate_user net now new_id tok s)) = []
       \<and> (calls (snd (authenticate_user net now new_id tok s)) = calls s @ [Execute, Commit, Rollback]
          \<or> calls (snd (authenticate_user net now new_id tok s))
               = calls s @ [Execute, Add, Commit, Rollback])"
proof -
  let ?d = "\<lparr>ud_yandex_id = yid, ud_email = em,
             ud_name = or_else (map_of yd ''real_name'')
                         (or_else (map_of yd ''display_name'')
                            (takeWhile (\<lambda>c. c \<noteq> CHR ''@'') em)),
             ud_access_token = tok, ud_token_expires = now + 30 * 86400\<rparr>"
  obtain s1 where g: "get_or_create_user new_id ?d s = (Inl IntegrityError, s1)"
    using viol by (cases "get_or_create_user new_id ?d s") simp
  from integrity_error_state[OF viol] g
  have st: "users s1 = users s"
    and cl: "calls s1 = calls s @ [Execute, Commit] \<or> calls s1 = calls s @ [Execute, Add, Commit]"
    by simp_all
  have body: "authenticate_body net now new_id tok s =
                (Inl (HTTPException 409 ''User already exists with different credentials''),
                 rollback s1)"
    using info uid email g by (simp add: authenticate_body_def)
  then have res: "authenticate_user net now new_id tok s =
                (Inl (HTTPException 409 ''User already exists with different credentials''),
                 rollback s1)"
    by (simp add: authenticate_user_def)
  from cl show ?thesis
    by (auto simp: res rollback_def called_def st)
qed

theorem authenticate_user_conflict_witness:
  "fst (authenticate_user provider0 1000 ''u3'' ''t-x'' session0) =
     Inl (HTTPException 409 ''User already exists with different credentials'')
   \<and> users (snd (authenticate_user provider0 1000 ''u3'' ''t-x'' session0)) = [ann, ben]
   \<and> work (snd (authenticate_user provider0 1000 ''u3'' ''t-x'' session0)) = []
   \<and> calls (snd (authenticate_user provider0 1000 ''u3'' ''t-x'' session0))
       = [Execute, Commit, Rollback]"
proof -
  let ?yd = "[(''user_id'', ''2''), (''default_email'', ''ann@example.com''), (''real_name'', ''Ann''),
              (''access_token'', ''t-x'')]"
  have info: "fst (get_yandex_user_info provider0 ''t-x'') = Inr ?yd"
    by (simp add: get_yandex_user_info_def provider0_def tokeninfo_request_def info_request_def
          is_success_def dict_merge_def dict_set_def Let_def)
  have uid: "map_of ?yd ''user_id'' = Some ''2''"
    and email: "map_of ?yd ''default_email'' = Some ''ann@example.com''"
    by simp_all
  have viol: "fst (get_or_create_user ''u3''
                 \<lparr>ud_yandex_id = ''2'', ud_email = ''ann@example.com'',
                  ud_name = or_else (map_of ?yd ''real_name'')
                              (or_else (map_of ?yd ''display_name'')
                                 (takeWhile (\<lambda>c. c \<noteq> CHR ''@'') ''ann@example.com'')),
                  ud_access_token = ''t-x'', ud_token_expires = 1000 + 30 * 86400\<rparr> session0)
               = Inl IntegrityError"
    by (simp add: get_or_create_user_def first_row_def assigned_def commit_users_def called_def
          clashes_def session0_def ann_def ben_def or_else_def Let_def)
  have c: "calls session0 = []" and u: "users session0 = [ann, ben]"
    by (simp_all add: session0_def)
  have no_add: "calls (snd (authenticate_user provider0 1000 ''u3'' ''t-x'' session0))
      \<noteq> [Execute, Add, Commit, Rollback]"
    by (simp add: authenticate_user_def authenticate_body_def info
          get_or_create_user_def first_row_def assigned_def commit_users_def called_def
          clashes_def session0_def ann_def ben_def or_else_def rollback_def Let_def)
  from authenticate_user_conflict[OF info uid email viol] no_add show ?thesis
    by (auto simp: c u)
qed

section \<open>Properties of the tokens\<close>

lemma create_access_token_try_raises:
  "create_access_token_try jwt_encode settings utcnow data =
     Inl (AttributeError (quoted ''Settings'' @ '' object has no attribute ''
                            @ quoted ''ACCESS_TOKEN_EXPIRE_MINUTES''))"
  by (simp add: create_access_token_try_def getattr_Settings_names)

lemma verify_token_try_raises:
  "verify_token_try jwt_decode settings token =
     Inl (AttributeError (quoted ''Settings'' @ '' object has no attribute ''
                            @ quoted ''SECRET_KEY''))"
  by (simp add: verify_token_try_def getattr_Settings_names)

text \<open>
  C1, evaluated. Whatever \<open>jwt.encode\<close> does, whatever the settings object, the clock and
  the data, \<open>create_access_token\<close> raises \<open>AttributeError\<close>: \<open>Settings\<close> has no attribute
  \<open>ACCESS_TOKEN_EXPIRE_MINUTES\<close>, and the \<open>except\<close> clause does not catch that exception.
  In particular no token is created for \<open>{"sub": U}\<close>, so there is nothing to verify.
\<close>

theorem create_access_token_raises:
  "create_access_token jwt_encode settings utcnow data =
     Inl (AttributeError (quoted ''Settings'' @ '' object has no attribute ''
                            @ quoted ''ACCESS_TOKEN_EXPIRE_MINUTES''))
   \<and> create_access_token jwt_encode settings utcnow [(''sub'', PStr U)] \<noteq> Inr token"
  by (simp add: create_access_token_def create_access_token_try_raises)

text \<open>
  C2, evaluated. Whatever \<open>jwt.decode\<close> does, whatever the settings object and the token,
  \<open>verify_token\<close> raises \<open>AttributeError\<close>: \<open>Settings\<close> has no attribute \<open>SECRET_KEY\<close>, the
  exception is raised while the arguments of \<open>jwt.decode\<close> are evaluated, and none of the
  three \<open>except\<close> clauses catches it. So no token is answered with its payload, and none
  with 401, expired or not.
\<close>

theorem verify_token_raises:
  "verify_token jwt_decode settings token =
     Inl (AttributeError (quoted ''Settings'' @ '' object has no attribute ''
                            @ quoted ''SECRET_KEY''))
   \<and> verify_token jwt_decode settings token \<noteq> Inr payload
   \<and> verify_token jwt_decode settings token \<noteq> Inl (HTTPException 401 detail)"
  by (simp add: verify_token_def verify_token_try_raises)

end
